theory Spec2Isabelle
  imports Complex_Main "HOL-Library.Word"
begin

section \<open>JavaScript strings\<close>

text \<open>
  A JavaScript string is a sequence of UTF-16 code units; \<open>length\<close> counts code units.
  ASCII literals of the source are written through \<open>js\<close>.
\<close>

type_synonym cu = "16 word"
type_synonym jsstring = "cu list"

definition js :: "string \<Rightarrow> jsstring" where
  "js s = map (\<lambda>c. of_nat (of_char c)) s"

text \<open>
  \<open>String.prototype.trim\<close> strips WhiteSpace and LineTerminator code points from both
  ends; the regular expression class \<open>\s\<close> is the same set: TAB, LF, VT, FF, CR, SP,
  NBSP, U+1680, U+2000..U+200A, U+2028, U+2029, U+202F, U+205F, U+3000, U+FEFF.
\<close>

definition isWhiteSpace :: "cu \<Rightarrow> bool" where
  "isWhiteSpace c \<longleftrightarrow>
     c = 0x09 \<or> c = 0x0A \<or> c = 0x0B \<or> c = 0x0C \<or> c = 0x0D \<or> c = 0x20 \<or> c = 0xA0 \<or>
     c = 0x1680 \<or> (0x2000 \<le> c \<and> c \<le> 0x200A) \<or> c = 0x2028 \<or> c = 0x2029 \<or>
     c = 0x202F \<or> c = 0x205F \<or> c = 0x3000 \<or> c = 0xFEFF"

definition trim :: "jsstring \<Rightarrow> jsstring" where
  "trim s = rev (dropWhile isWhiteSpace (rev (dropWhile isWhiteSpace s)))"

section \<open>The regular expression of validateEmail\<close>

text \<open>
  The fragment of regular expressions the source uses: a sequence of items, each a
  literal code unit or a character class repeated one or more times (\<open>+\<close>). The
  expression is anchored at both ends (\<open>^\<close> and \<open>$\<close>, no flags), so \<open>test\<close> succeeds
  exactly when the whole string matches. The class repetition first tries to take one
  more code unit and then backtracks to the rest of the expression.
\<close>

datatype item = Lit cu | Plus1 "cu \<Rightarrow> bool"

fun rmatch :: "item list \<Rightarrow> jsstring \<Rightarrow> bool" where
  "rmatch [] s = (s = [])"
| "rmatch (Lit c # r) [] = False"
| "rmatch (Lit c # r) (x # xs) = (x = c \<and> rmatch r xs)"
| "rmatch (Plus1 p # r) [] = False"
| "rmatch (Plus1 p # r) (x # xs) = (p x \<and> (rmatch (Plus1 p # r) xs \<or> rmatch r xs))"

text \<open>The class \<open>[^\s@]\<close>.\<close>

definition notSpaceAt :: "cu \<Rightarrow> bool" where
  "notSpaceAt c \<longleftrightarrow> \<not> isWhiteSpace c \<and> c \<noteq> 0x40"

text \<open>\<open>/^[^\s@]+@[^\s@]+\.[^\s@]+$/\<close>\<close>

definition emailRegex :: "item list" where
  "emailRegex = [Plus1 notSpaceAt, Lit 0x40, Plus1 notSpaceAt, Lit 0x2E, Plus1 notSpaceAt]"

definition emailRegex_test :: "jsstring \<Rightarrow> bool" where
  "emailRegex_test s = rmatch emailRegex s"

text \<open>
  The shape in the words of the specification, to be compared with \<open>emailRegex_test\<close>:
  a sequence of code units that are neither whitespace nor \<open>@\<close>, then \<open>@\<close>, then such
  a sequence, then a dot, then such a sequence; the three sequences are not empty.
\<close>

definition spec_emailShape :: "jsstring \<Rightarrow> bool" where
  "spec_emailShape s \<longleftrightarrow>
     (\<exists>a b c. s = a @ [0x40] @ b @ [0x2E] @ c \<and> a \<noteq> [] \<and> b \<noteq> [] \<and> c \<noteq> [] \<and>
        list_all notSpaceAt a \<and> list_all notSpaceAt b \<and> list_all notSpaceAt c)"

section \<open>ContactForm\<close>

text \<open>
  The DOM objects the class holds: three inputs (\<open>value\<close>, the default value that
  \<open>form.reset()\<close> restores, the class \<open>error\<close>), their error elements (\<open>textContent\<close>,
  the class \<open>visible\<close>), the success element, and the submit button with its label and
  loader. \<open>awaiting\<close> counts the \<open>handleSubmit\<close> calls suspended at \<open>await\<close>,
  \<open>hideTimers\<close> the pending 5-second timers, \<open>alerts\<close> the alerts raised.
\<close>

record input =
  val :: jsstring
  defaultValue :: jsstring
  hasError :: bool

record errorElement =
  textContent :: jsstring
  visible :: bool

record form =
  nameInput :: input
  emailInput :: input
  messageInput :: input
  nameError :: errorElement
  emailError :: errorElement
  messageError :: errorElement
  formSuccess :: bool
  submitDisabled :: bool
  buttonTextDisplay :: jsstring
  buttonLoaderDisplay :: jsstring
  awaiting :: nat
  hideTimers :: nat
  alerts :: nat

datatype fid = Name | Email | Message

fun inputOf :: "fid \<Rightarrow> form \<Rightarrow> input" where
  "inputOf Name s = nameInput s"
| "inputOf Email s = emailInput s"
| "inputOf Message s = messageInput s"

fun errorOf :: "fid \<Rightarrow> form \<Rightarrow> errorElement" where
  "errorOf Name s = nameError s"
| "errorOf Email s = emailError s"
| "errorOf Message s = messageError s"

fun store :: "fid \<Rightarrow> input \<times> errorElement \<Rightarrow> form \<Rightarrow> form" where
  "store Name p s = s\<lparr>nameInput := fst p, nameError := snd p\<rparr>"
| "store Email p s = s\<lparr>emailInput := fst p, emailError := snd p\<rparr>"
| "store Message p s = s\<lparr>messageInput := fst p, messageError := snd p\<rparr>"

definition showError :: "input \<Rightarrow> errorElement \<Rightarrow> jsstring \<Rightarrow> input \<times> errorElement" where
  "showError inp errorElem message =
     (inp\<lparr>hasError := True\<rparr>, errorElem\<lparr>textContent := message, visible := True\<rparr>)"

definition clearError :: "input \<Rightarrow> errorElement \<Rightarrow> input \<times> errorElement" where
  "clearError inp errorElem = (inp\<lparr>hasError := False\<rparr>, errorElem\<lparr>visible := False\<rparr>)"

text \<open>The six messages of the source (\<open>0x27\<close> is the apostrophe, \<open>0xE8\<close> is e-grave).\<close>

definition msgNameRequired :: jsstring where
  "msgNameRequired = js ''Le nom est requis''"

definition msgNameShort :: jsstring where
  "msgNameShort = js ''Le nom doit contenir au moins 2 caract'' @ [0xE8] @ js ''res''"

definition msgEmailRequired :: jsstring where
  "msgEmailRequired = js ''L'' @ [0x27] @ js ''email est requis''"

definition msgEmailInvalid :: jsstring where
  "msgEmailInvalid = js ''Veuillez entrer un email valide''"

definition msgMessageRequired :: jsstring where
  "msgMessageRequired = js ''Le message est requis''"

definition msgMessageShort :: jsstring where
  "msgMessageShort = js ''Le message doit contenir au moins 10 caract'' @ [0xE8] @ js ''res''"

definition validateName :: "form \<Rightarrow> bool \<times> form" where
  "validateName s =
     (let name = trim (val (nameInput s)) in
      if length name = 0 then
        (False, store Name (showError (nameInput s) (nameError s) msgNameRequired) s)
      else if length name < 2 then
        (False, store Name (showError (nameInput s) (nameError s) msgNameShort) s)
      else (True, store Name (clearError (nameInput s) (nameError s)) s))"

definition validateEmail :: "form \<Rightarrow> bool \<times> form" where
  "validateEmail s =
     (let email = trim (val (emailInput s)) in
      if length email = 0 then
        (False, store Email (showError (emailInput s) (emailError s) msgEmailRequired) s)
      else if \<not> emailRegex_test email then
        (False, store Email (showError (emailInput s) (emailError s) msgEmailInvalid) s)
      else (True, store Email (clearError (emailInput s) (emailError s)) s))"

definition validateMessage :: "form \<Rightarrow> bool \<times> form" where
  "validateMessage s =
     (let message = trim (val (messageInput s)) in
      if length message = 0 then
        (False, store Message (showError (messageInput s) (messageError s) msgMessageRequired) s)
      else if length message < 10 then
        (False, store Message (showError (messageInput s) (messageError s) msgMessageShort) s)
      else (True, store Message (clearError (messageInput s) (messageError s)) s))"

fun validate :: "fid \<Rightarrow> form \<Rightarrow> bool \<times> form" where
  "validate Name s = validateName s"
| "validate Email s = validateEmail s"
| "validate Message s = validateMessage s"

text \<open>
  What a call of a validator leaves behind. A failure with message \<open>m\<close>: the result is
  \<open>false\<close>, the input carries the class \<open>error\<close>, the error element holds \<open>m\<close> and is
  visible. A success: the result is \<open>true\<close> and both classes are gone.
\<close>

definition fails :: "fid \<Rightarrow> jsstring \<Rightarrow> bool \<times> form \<Rightarrow> bool" where
  "fails f m r \<longleftrightarrow>
     \<not> fst r \<and> hasError (inputOf f (snd r)) \<and> textContent (errorOf f (snd r)) = m \<and>
     visible (errorOf f (snd r))"

definition passes :: "fid \<Rightarrow> bool \<times> form \<Rightarrow> bool" where
  "passes f r \<longleftrightarrow> fst r \<and> \<not> hasError (inputOf f (snd r)) \<and> \<not> visible (errorOf f (snd r))"

text \<open>
  The \<open>input\<close> listener of \<open>init\<close>: it removes the class \<open>error\<close> from the input and
  the class \<open>visible\<close> from the element whose id is the input's id followed by
  \<open>Error\<close>; it calls no validator and leaves \<open>textContent\<close> alone.
\<close>

definition onInput :: "fid \<Rightarrow> form \<Rightarrow> form" where
  "onInput f s = store f ((inputOf f s)\<lparr>hasError := False\<rparr>, (errorOf f s)\<lparr>visible := False\<rparr>) s"

subsection \<open>handleSubmit\<close>

record event =
  defaultPrevented :: bool

definition preventDefault :: "event \<Rightarrow> event" where
  "preventDefault e = e\<lparr>defaultPrevented := True\<rparr>"

text \<open>How the awaited promise settles. \<open>simulateFormSubmission\<close> always resolves.\<close>

datatype outcome = Resolved | Rejected

definition simulateFormSubmission :: outcome where
  "simulateFormSubmission = Resolved"

text \<open>
  The handler up to its \<open>await\<close>. The third component tells whether the handler is
  suspended there (validation passed) or has returned.
\<close>

definition handleSubmit_begin :: "event \<Rightarrow> form \<Rightarrow> event \<times> form \<times> bool" where
  "handleSubmit_begin e s =
     (let e1 = preventDefault e;
          (isNameValid, s1) = validateName s;
          (isEmailValid, s2) = validateEmail s1;
          (isMessageValid, s3) = validateMessage s2
      in if \<not> isNameValid \<or> \<not> isEmailValid \<or> \<not> isMessageValid then (e1, s3, False)
         else (e1, s3\<lparr>submitDisabled := True, buttonTextDisplay := js ''none'',
                      buttonLoaderDisplay := js ''block''\<rparr>, True))"

text \<open>\<open>form.reset()\<close> restores every control's default value; it touches no class.\<close>

definition reset :: "form \<Rightarrow> form" where
  "reset s = s\<lparr>nameInput := (nameInput s)\<lparr>val := defaultValue (nameInput s)\<rparr>,
               emailInput := (emailInput s)\<lparr>val := defaultValue (emailInput s)\<rparr>,
               messageInput := (messageInput s)\<lparr>val := defaultValue (messageInput s)\<rparr>\<rparr>"

text \<open>The \<open>finally\<close> block.\<close>

definition resetButton :: "form \<Rightarrow> form" where
  "resetButton s = s\<lparr>submitDisabled := False, buttonTextDisplay := js ''block'',
                     buttonLoaderDisplay := js ''none''\<rparr>"

text \<open>The handler from the point where the awaited promise settles.\<close>

fun handleSubmit_resume :: "outcome \<Rightarrow> form \<Rightarrow> form" where
  "handleSubmit_resume Resolved s =
     resetButton ((reset (s\<lparr>formSuccess := True\<rparr>))\<lparr>hideTimers := Suc (hideTimers s)\<rparr>)"
| "handleSubmit_resume Rejected s = resetButton (s\<lparr>alerts := Suc (alerts s)\<rparr>)"

text \<open>One whole run of the handler with nothing else happening during the wait.\<close>

definition handleSubmit :: "outcome \<Rightarrow> event \<Rightarrow> form \<Rightarrow> event \<times> form" where
  "handleSubmit out e s =
     (let (e1, s1, suspended) = handleSubmit_begin e s
      in if suspended then (e1, handleSubmit_resume out s1) else (e1, s1))"

subsection \<open>Events on the form\<close>

text \<open>
  \<open>Input f v\<close>: the user edits field \<open>f\<close> to \<open>v\<close> and the \<open>input\<close> listener runs.
  \<open>Settled out\<close>: the promise a suspended handler awaits settles. \<open>HideTimeout\<close>: a
  5-second timer fires.
\<close>

datatype form_event = Blur fid | Input fid jsstring | Submit | Settled outcome | HideTimeout

definition setVal :: "fid \<Rightarrow> jsstring \<Rightarrow> form \<Rightarrow> form" where
  "setVal f v s = store f ((inputOf f s)\<lparr>val := v\<rparr>, errorOf f s) s"

fun step :: "form \<Rightarrow> form_event \<Rightarrow> form" where
  "step s (Blur f) = snd (validate f s)"
| "step s (Input f v) = onInput f (setVal f v s)"
| "step s Submit =
     (let (e1, s1, suspended) = handleSubmit_begin \<lparr>defaultPrevented = False\<rparr> s
      in if suspended then s1\<lparr>awaiting := Suc (awaiting s1)\<rparr> else s1)"
| "step s (Settled out) =
     (if awaiting s = 0 then s else handleSubmit_resume out (s\<lparr>awaiting := awaiting s - 1\<rparr>))"
| "step s HideTimeout =
     (if hideTimers s = 0 then s else s\<lparr>formSuccess := False, hideTimers := hideTimers s - 1\<rparr>)"

definition run :: "form \<Rightarrow> form_event list \<Rightarrow> form" where
  "run s evs = foldl step s evs"

text \<open>The submit control is enabled, its label shown and its loader hidden.\<close>

definition buttonRestored :: "form \<Rightarrow> bool" where
  "buttonRestored s \<longleftrightarrow>
     \<not> submitDisabled s \<and> buttonTextDisplay s = js ''block'' \<and> buttonLoaderDisplay s = js ''none''"

text \<open>The error message on display for a field: empty while the element is not visible.\<close>

definition shownError :: "fid \<Rightarrow> form \<Rightarrow> jsstring" where
  "shownError f s = (if visible (errorOf f s) then textContent (errorOf f s) else [])"

text \<open>A field has been blurred or submitted at least once in a sequence of events.\<close>

definition touched :: "fid \<Rightarrow> form_event list \<Rightarrow> bool" where
  "touched f evs \<longleftrightarrow> Blur f \<in> set evs \<or> Submit \<in> set evs"

text \<open>The page as loaded: the given field values, no error shown, button idle.\<close>

definition freshInput :: "jsstring \<Rightarrow> input" where
  "freshInput v = \<lparr>val = v, defaultValue = [], hasError = False\<rparr>"

definition freshError :: errorElement where
  "freshError = \<lparr>textContent = [], visible = False\<rparr>"

definition loaded :: "jsstring \<Rightarrow> jsstring \<Rightarrow> jsstring \<Rightarrow> form" where
  "loaded n e m =
     \<lparr>nameInput = freshInput n, emailInput = freshInput e, messageInput = freshInput m,
      nameError = freshError, emailError = freshError, messageError = freshError,
      formSuccess = False, submitDisabled = False, buttonTextDisplay = [],
      buttonLoaderDisplay = js ''none'', awaiting = 0, hideTimers = 0, alerts = 0\<rparr>"

section \<open>Navigation\<close>

subsection \<open>setupActiveLinks\<close>

text \<open>
  A \<open>section[id]\<close> element with its \<open>id\<close> attribute and its integer \<open>offsetTop\<close>;
  \<open>window.scrollY\<close> is a number of pixels that need not be whole. A nav link with its
  \<open>href\<close> attribute (\<open>None\<close> when the attribute is absent) and its class \<open>active\<close>.
\<close>

record sectionElem =
  sid :: jsstring
  offsetTop :: int
  clientHeight :: int

record navLink =
  href :: "jsstring option"
  active :: bool

text \<open>The first \<open>forEach\<close> of the scroll handler, starting from \<open>current = ''\<close>.\<close>

definition currentSection :: "real \<Rightarrow> sectionElem list \<Rightarrow> jsstring" where
  "currentSection scrollY sections =
     fold (\<lambda>sec current. if scrollY \<ge> of_int (offsetTop sec) - 200 then sid sec else current)
       sections []"

text \<open>The second \<open>forEach\<close>: \<open>0x23\<close> is the hash sign of the template \<open>#${current}\<close>.\<close>

definition markLink :: "jsstring \<Rightarrow> navLink \<Rightarrow> navLink" where
  "markLink current link =
     (let l1 = link\<lparr>active := False\<rparr>
      in if href l1 = Some (0x23 # current) then l1\<lparr>active := True\<rparr> else l1)"

definition handleScroll :: "real \<Rightarrow> sectionElem list \<Rightarrow> navLink list \<Rightarrow> navLink list" where
  "handleScroll scrollY sections navLinks = map (markLink (currentSection scrollY sections)) navLinks"

subsection \<open>setupMobileMenu and the Escape key\<close>

text \<open>
  The \<open>aria-expanded\<close> attribute of the toggle (\<open>None\<close> when absent) and the class
  \<open>active\<close> of the menu. \<open>setAttribute\<close> stores the string of its argument.
\<close>

record menu =
  ariaExpanded :: "jsstring option"
  menuActive :: bool

definition toString :: "bool \<Rightarrow> jsstring" where
  "toString b = (if b then js ''true'' else js ''false'')"

definition toggleClick :: "menu \<Rightarrow> menu" where
  "toggleClick s =
     (let isExpanded = (ariaExpanded s = Some (js ''true''))
      in s\<lparr>ariaExpanded := Some (toString (\<not> isExpanded)), menuActive := \<not> menuActive s\<rparr>)"

definition linkClick :: "menu \<Rightarrow> menu" where
  "linkClick s = s\<lparr>menuActive := False, ariaExpanded := Some (js ''false'')\<rparr>"

text \<open>The listener on \<open>document\<close>; \<open>inside\<close> is \<open>nav.contains(e.target)\<close>.\<close>

definition documentClick :: "bool \<Rightarrow> menu \<Rightarrow> menu" where
  "documentClick inside s =
     (if \<not> inside then s\<lparr>menuActive := False, ariaExpanded := Some (js ''false'')\<rparr> else s)"

definition keydown :: "jsstring \<Rightarrow> menu \<Rightarrow> menu" where
  "keydown key s =
     (if key = js ''Escape'' then
        (if menuActive s then s\<lparr>menuActive := False, ariaExpanded := Some (js ''false'')\<rparr> else s)
      else s)"

text \<open>
  A click runs the listeners of the elements on its propagation path in bubbling order
  (the toggle button, nav links) and the listener on \<open>document\<close> last.
\<close>

datatype listener = ToggleButton | NavLinkElem

fun hit :: "listener \<Rightarrow> menu \<Rightarrow> menu" where
  "hit ToggleButton s = toggleClick s"
| "hit NavLinkElem s = linkClick s"

datatype nav_event = Click "listener list" bool | KeyDown jsstring

fun navStep :: "menu \<Rightarrow> nav_event \<Rightarrow> menu" where
  "navStep s (Click path inside) = documentClick inside (fold hit path s)"
| "navStep s (KeyDown key) = keydown key s"

text \<open>The attribute mirrors the class.\<close>

definition mirrored :: "menu \<Rightarrow> bool" where
  "mirrored s \<longleftrightarrow> (ariaExpanded s = Some (js ''true'')) = menuActive s"

definition runNav :: "menu \<Rightarrow> nav_event list \<Rightarrow> menu" where
  "runNav s evs = foldl navStep s evs"

section \<open>ScrollAnimations\<close>


subsection \<open>setupIntersectionObserver\<close>






subsection \<open>animateSkillBars\<close>













section \<open>Properties of trim and of the email expression\<close>

lemma dropWhile_all_iff: "(\<forall>x\<in>set (dropWhile P xs). P x) \<longleftrightarrow> (\<forall>x\<in>set xs. P x)"
proof
  assume a: "\<forall>x\<in>set (dropWhile P xs). P x"
  have "dropWhile P xs = []"
  proof (rule ccontr)
    assume n: "dropWhile P xs \<noteq> []"
    then have "\<not> P (hd (dropWhile P xs))" by (rule hd_dropWhile)
    moreover from n have "hd (dropWhile P xs) \<in> set (dropWhile P xs)" by simp
    ultimately show False using a by blast
  qed
  then show "\<forall>x\<in>set xs. P x" by (simp add: dropWhile_eq_Nil_conv)
next
  assume "\<forall>x\<in>set xs. P x"
  then show "\<forall>x\<in>set (dropWhile P xs). P x" by (auto dest: set_dropWhileD)
qed

lemma trim_Nil_iff: "trim s = [] \<longleftrightarrow> (\<forall>c\<in>set s. isWhiteSpace c)"
  by (simp add: trim_def dropWhile_eq_Nil_conv dropWhile_all_iff)

lemma trim_unpadded:
  assumes "s \<noteq> []" "\<not> isWhiteSpace (hd s)" "\<not> isWhiteSpace (last s)"
  shows "trim s = s"
proof -
  from assms have 1: "dropWhile isWhiteSpace s = s" by (cases s) auto
  from assms have "dropWhile isWhiteSpace (rev s) = rev s"
    by (cases "rev s") (auto simp: hd_rev)
  with 1 show ?thesis by (simp add: trim_def)
qed

lemma rmatch_Lit: "rmatch (Lit c # r) s \<longleftrightarrow> (\<exists>b. s = c # b \<and> rmatch r b)"
  by (cases s) auto

lemma rmatch_Plus1:
  "rmatch (Plus1 p # r) s \<longleftrightarrow> (\<exists>a b. s = a @ b \<and> a \<noteq> [] \<and> list_all p a \<and> rmatch r b)"
proof (induction s)
  case Nil
  then show ?case by simp
next
  case (Cons x xs)
  show ?case
  proof
    assume "rmatch (Plus1 p # r) (x # xs)"
    then have px: "p x" and alt: "rmatch (Plus1 p # r) xs \<or> rmatch r xs" by auto
    from alt show "\<exists>a b. x # xs = a @ b \<and> a \<noteq> [] \<and> list_all p a \<and> rmatch r b"
    proof
      assume "rmatch (Plus1 p # r) xs"
      with Cons.IH obtain a b where "xs = a @ b" "list_all p a" "rmatch r b" by blast
      with px have "x # xs = (x # a) @ b \<and> x # a \<noteq> [] \<and> list_all p (x # a) \<and> rmatch r b" by simp
      then show ?thesis by blast
    next
      assume "rmatch r xs"
      with px have "x # xs = [x] @ xs \<and> [x] \<noteq> [] \<and> list_all p [x] \<and> rmatch r xs" by simp
      then show ?thesis by blast
    qed
  next
    assume "\<exists>a b. x # xs = a @ b \<and> a \<noteq> [] \<and> list_all p a \<and> rmatch r b"
    then obtain a b where ab: "x # xs = a @ b" "a \<noteq> []" "list_all p a" "rmatch r b" by blast
    then obtain a' where a: "a = x # a'" by (cases a) auto
    with ab have px: "p x" and xs: "xs = a' @ b" and pa: "list_all p a'" by auto
    show "rmatch (Plus1 p # r) (x # xs)"
    proof (cases a')
      case Nil
      with xs ab px show ?thesis by simp
    next
      case (Cons y ys)
      with xs pa ab Cons.IH have "rmatch (Plus1 p # r) xs" by blast
      with px show ?thesis by simp
    qed
  qed
qed

text \<open>The regular expression of the source accepts exactly the shape the specification words.\<close>

lemma emailRegex_test_iff: "emailRegex_test s \<longleftrightarrow> spec_emailShape s"
  unfolding emailRegex_test_def emailRegex_def spec_emailShape_def
  by (simp only: rmatch_Plus1 rmatch_Lit rmatch.simps) (auto; blast)

lemma spec_emailShape_nonempty: "spec_emailShape t \<Longrightarrow> 0 < length t"
  by (auto simp: spec_emailShape_def)

section \<open>Properties of the validators\<close>

lemmas validator_defs = validateName_def validateEmail_def validateMessage_def
  showError_def clearError_def fails_def passes_def

lemmas concrete_defs = js_def trim_def isWhiteSpace_def loaded_def freshInput_def freshError_def
  msgNameRequired_def msgNameShort_def msgEmailRequired_def msgEmailInvalid_def
  msgMessageRequired_def msgMessageShort_def

lemmas regex_eval = js_def trim_def isWhiteSpace_def emailRegex_test_def emailRegex_def notSpaceAt_def

lemma msgs_nonempty:
  "msgNameRequired \<noteq> []" "msgNameShort \<noteq> []" "msgEmailRequired \<noteq> []"
  "msgEmailInvalid \<noteq> []" "msgMessageRequired \<noteq> []" "msgMessageShort \<noteq> []"
  by (simp_all add: msgNameRequired_def msgNameShort_def msgEmailRequired_def msgEmailInvalid_def
      msgMessageRequired_def msgMessageShort_def js_def)

text \<open>A validator touches its own input and error element only, and never a value.\<close>

lemma validateName_frame:
  "emailInput (snd (validateName s)) = emailInput s"
  "messageInput (snd (validateName s)) = messageInput s"
  "emailError (snd (validateName s)) = emailError s"
  "messageError (snd (validateName s)) = messageError s"
  "val (nameInput (snd (validateName s))) = val (nameInput s)"
  "defaultValue (nameInput (snd (validateName s))) = defaultValue (nameInput s)"
  "form.more (snd (validateName s)) = form.more s"
  "formSuccess (snd (validateName s)) = formSuccess s"
  "submitDisabled (snd (validateName s)) = submitDisabled s"
  "buttonTextDisplay (snd (validateName s)) = buttonTextDisplay s"
  "buttonLoaderDisplay (snd (validateName s)) = buttonLoaderDisplay s"
  "awaiting (snd (validateName s)) = awaiting s"
  "hideTimers (snd (validateName s)) = hideTimers s"
  "alerts (snd (validateName s)) = alerts s"
  by (simp_all add: validateName_def showError_def clearError_def Let_def)

lemma validateEmail_frame:
  "nameInput (snd (validateEmail s)) = nameInput s"
  "messageInput (snd (validateEmail s)) = messageInput s"
  "nameError (snd (validateEmail s)) = nameError s"
  "messageError (snd (validateEmail s)) = messageError s"
  "val (emailInput (snd (validateEmail s))) = val (emailInput s)"
  "defaultValue (emailInput (snd (validateEmail s))) = defaultValue (emailInput s)"
  "formSuccess (snd (validateEmail s)) = formSuccess s"
  "submitDisabled (snd (validateEmail s)) = submitDisabled s"
  "buttonTextDisplay (snd (validateEmail s)) = buttonTextDisplay s"
  "buttonLoaderDisplay (snd (validateEmail s)) = buttonLoaderDisplay s"
  "awaiting (snd (validateEmail s)) = awaiting s"
  "hideTimers (snd (validateEmail s)) = hideTimers s"
  "alerts (snd (validateEmail s)) = alerts s"
  by (simp_all add: validateEmail_def showError_def clearError_def Let_def)

lemma validateMessage_frame:
  "nameInput (snd (validateMessage s)) = nameInput s"
  "emailInput (snd (validateMessage s)) = emailInput s"
  "nameError (snd (validateMessage s)) = nameError s"
  "emailError (snd (validateMessage s)) = emailError s"
  "val (messageInput (snd (validateMessage s))) = val (messageInput s)"
  "defaultValue (messageInput (snd (validateMessage s))) = defaultValue (messageInput s)"
  "formSuccess (snd (validateMessage s)) = formSuccess s"
  "submitDisabled (snd (validateMessage s)) = submitDisabled s"
  "buttonTextDisplay (snd (validateMessage s)) = buttonTextDisplay s"
  "buttonLoaderDisplay (snd (validateMessage s)) = buttonLoaderDisplay s"
  "awaiting (snd (validateMessage s)) = awaiting s"
  "hideTimers (snd (validateMessage s)) = hideTimers s"
  "alerts (snd (validateMessage s)) = alerts s"
  by (simp_all add: validateMessage_def showError_def clearError_def Let_def)

text \<open>The verdict of a validator depends on the value of its own input only.\<close>

lemma validateName_verdict: "fst (validateName s) \<longleftrightarrow> 2 \<le> length (trim (val (nameInput s)))"
  by (auto simp: validateName_def Let_def)

lemma validateEmail_verdict: "fst (validateEmail s) \<longleftrightarrow> emailRegex_test (trim (val (emailInput s)))"
  by (auto simp: validateEmail_def Let_def emailRegex_test_def emailRegex_def)

lemma validateMessage_verdict: "fst (validateMessage s) \<longleftrightarrow> 10 \<le> length (trim (val (messageInput s)))"
  by (auto simp: validateMessage_def Let_def)

lemma validate_verdict_cong:
  "val (inputOf f s) = val (inputOf f t) \<Longrightarrow> fst (validate f s) = fst (validate f t)"
  by (cases f) (simp_all add: validateName_verdict validateEmail_verdict validateMessage_verdict)

lemma validate_visible: "visible (errorOf f (snd (validate f s))) \<longleftrightarrow> \<not> fst (validate f s)"
  by (cases f) (simp_all add: validateName_def validateEmail_def validateMessage_def
      showError_def clearError_def Let_def)

lemma validateEmail_cases:
  "validateEmail s =
     (if length (trim (val (emailInput s))) = 0 then
        (False, store Email (showError (emailInput s) (emailError s) msgEmailRequired) s)
      else if \<not> spec_emailShape (trim (val (emailInput s))) then
        (False, store Email (showError (emailInput s) (emailError s) msgEmailInvalid) s)
      else (True, store Email (clearError (emailInput s) (emailError s)) s))"
  by (simp add: validateEmail_def Let_def emailRegex_test_iff)

text \<open>
  Claim C6. Let \<open>n\<close> be the length of the name value after \<open>trim\<close>. \<open>validateName\<close>
  fails with the empty-field message \<open>Le nom est requis\<close> when \<open>n = 0\<close>, fails with the
  too-short message when \<open>0 < n < 2\<close>, and succeeds otherwise. The empty string gives the
  first failure, \<open>A\<close> the second, and \<open>Al\<close> is valid; a value of whitespace only is an
  empty field.
\<close>

theorem validateName_outcome:
  "(length (trim (val (nameInput s))) = 0 \<longrightarrow> fails Name msgNameRequired (validateName s)) \<and>
   (0 < length (trim (val (nameInput s))) \<and> length (trim (val (nameInput s))) < 2 \<longrightarrow>
      fails Name msgNameShort (validateName s)) \<and>
   (2 \<le> length (trim (val (nameInput s))) \<longrightarrow> passes Name (validateName s)) \<and>
   (val (nameInput s) = [] \<longrightarrow> fails Name msgNameRequired (validateName s)) \<and>
   (val (nameInput s) = js ''A'' \<longrightarrow> fails Name msgNameShort (validateName s)) \<and>
   (val (nameInput s) = js ''Al'' \<longrightarrow> passes Name (validateName s)) \<and>
   ((\<forall>c \<in> set (val (nameInput s)). isWhiteSpace c) \<longrightarrow>
      fails Name msgNameRequired (validateName s))"
proof -
  have a: "(length (trim (val (nameInput s))) = 0 \<longrightarrow> fails Name msgNameRequired (validateName s)) \<and>
   (0 < length (trim (val (nameInput s))) \<and> length (trim (val (nameInput s))) < 2 \<longrightarrow>
      fails Name msgNameShort (validateName s)) \<and>
   (2 \<le> length (trim (val (nameInput s))) \<longrightarrow> passes Name (validateName s))"
    by (simp add: validator_defs Let_def)
  have b: "trim [] = [] \<and> length (trim (js ''A'')) = 1 \<and> length (trim (js ''Al'')) = 2"
    by (simp add: js_def trim_def isWhiteSpace_def)
  have c: "(\<forall>c \<in> set (val (nameInput s)). isWhiteSpace c) \<longrightarrow> length (trim (val (nameInput s))) = 0"
    by (simp add: trim_Nil_iff)
  have d: "val (nameInput s) = [] \<longrightarrow> fails Name msgNameRequired (validateName s)"
    using a b by auto
  have e: "val (nameInput s) = js ''A'' \<longrightarrow> fails Name msgNameShort (validateName s)"
    using a b by auto
  have f: "val (nameInput s) = js ''Al'' \<longrightarrow> passes Name (validateName s)"
    using a b by auto
  from a c d e f show ?thesis by blast
qed

theorem validateName_outcome_witness:
  "fails Name msgNameRequired (validateName (loaded (js ''  '') [] [])) \<and>
   fails Name msgNameShort (validateName (loaded (js ''A'') [] [])) \<and>
   passes Name (validateName (loaded (js ''Al'') [] []))"
proof -
  have 1: "length (trim (val (nameInput (loaded (js ''  '') [] [])))) = 0"
    by (simp add: concrete_defs)
  have 2: "val (nameInput (loaded (js ''A'') [] [])) = js ''A''"
    by (simp add: loaded_def freshInput_def)
  have 3: "2 \<le> length (trim (val (nameInput (loaded (js ''Al'') [] []))))"
    by (simp add: concrete_defs)
  note t1 = validateName_outcome [of "loaded (js ''  '') [] []"]
  note t2 = validateName_outcome [of "loaded (js ''A'') [] []"]
  note t3 = validateName_outcome [of "loaded (js ''Al'') [] []"]
  from t1 [THEN conjunct1] 1
  have a: "fails Name msgNameRequired (validateName (loaded (js ''  '') [] []))"
    by (rule mp)
  from t2 [THEN conjunct2, THEN conjunct2, THEN conjunct2, THEN conjunct2, THEN conjunct1] 2
  have b: "fails Name msgNameShort (validateName (loaded (js ''A'') [] []))"
    by (rule mp)
  from t3 [THEN conjunct2, THEN conjunct2, THEN conjunct1] 3
  have c: "passes Name (validateName (loaded (js ''Al'') [] []))"
    by (rule mp)
  from a b c show ?thesis by (intro conjI)
qed

text \<open>
  Claim C2, in the form the code satisfies. Let \<open>n\<close> be the length of the message value
  after \<open>trim\<close>. \<open>validateMessage\<close> fails with the empty-field message when \<open>n = 0\<close>,
  fails with the too-short message when \<open>0 < n < 10\<close>, and succeeds when \<open>10 \<le> n\<close>; a
  trimmed length of 9 is too short, and the empty string is an empty field. For a value
  with no whitespace at either end the length of the value itself decides.
\<close>

theorem validateMessage_outcome:
  "(length (trim (val (messageInput s))) = 0 \<longrightarrow>
      fails Message msgMessageRequired (validateMessage s)) \<and>
   (0 < length (trim (val (messageInput s))) \<and> length (trim (val (messageInput s))) < 10 \<longrightarrow>
      fails Message msgMessageShort (validateMessage s)) \<and>
   (10 \<le> length (trim (val (messageInput s))) \<longrightarrow> passes Message (validateMessage s)) \<and>
   (length (trim (val (messageInput s))) = 9 \<longrightarrow> fails Message msgMessageShort (validateMessage s)) \<and>
   (val (messageInput s) = [] \<longrightarrow> fails Message msgMessageRequired (validateMessage s)) \<and>
   (val (messageInput s) \<noteq> [] \<and> \<not> isWhiteSpace (hd (val (messageInput s))) \<and>
    \<not> isWhiteSpace (last (val (messageInput s))) \<longrightarrow>
      (10 \<le> length (val (messageInput s)) \<longrightarrow> passes Message (validateMessage s)) \<and>
      (length (val (messageInput s)) < 10 \<longrightarrow> fails Message msgMessageShort (validateMessage s)))"
proof -
  have a: "(length (trim (val (messageInput s))) = 0 \<longrightarrow>
      fails Message msgMessageRequired (validateMessage s)) \<and>
   (0 < length (trim (val (messageInput s))) \<and> length (trim (val (messageInput s))) < 10 \<longrightarrow>
      fails Message msgMessageShort (validateMessage s)) \<and>
   (10 \<le> length (trim (val (messageInput s))) \<longrightarrow> passes Message (validateMessage s))"
    by (simp add: validator_defs Let_def)
  have b: "val (messageInput s) = [] \<longrightarrow> length (trim (val (messageInput s))) = 0"
    by (simp add: trim_def)
  have c: "val (messageInput s) \<noteq> [] \<and> \<not> isWhiteSpace (hd (val (messageInput s))) \<and>
    \<not> isWhiteSpace (last (val (messageInput s))) \<longrightarrow>
      trim (val (messageInput s)) = val (messageInput s)"
    by (simp add: trim_unpadded)
  have d: "val (messageInput s) \<noteq> [] \<longrightarrow> 0 < length (val (messageInput s))" by simp
  have e: "length (trim (val (messageInput s))) = 9 \<longrightarrow>
      0 < length (trim (val (messageInput s))) \<and> length (trim (val (messageInput s))) < 10"
    by simp
  from a b c d e show ?thesis by metis
qed

theorem validateMessage_outcome_witness:
  "fails Message msgMessageRequired (validateMessage (loaded [] [] (js ''   ''))) \<and>
   fails Message msgMessageShort (validateMessage (loaded [] [] (js '' 123456789 ''))) \<and>
   passes Message (validateMessage (loaded [] [] (js ''Hello there!'')))"
proof -
  have 1: "length (trim (val (messageInput (loaded [] [] (js ''   ''))))) = 0"
    by (simp add: concrete_defs)
  have 2: "length (trim (val (messageInput (loaded [] [] (js '' 123456789 ''))))) = 9"
    by (simp add: concrete_defs)
  have 3: "10 \<le> length (trim (val (messageInput (loaded [] [] (js ''Hello there!'')))))"
    by (simp add: concrete_defs)
  note t1 = validateMessage_outcome [of "loaded [] [] (js ''   '')"]
  note t2 = validateMessage_outcome [of "loaded [] [] (js '' 123456789 '')"]
  note t3 = validateMessage_outcome [of "loaded [] [] (js ''Hello there!'')"]
  from t1 [THEN conjunct1] 1
  have a: "fails Message msgMessageRequired (validateMessage (loaded [] [] (js ''   '')))"
    by (rule mp)
  from t2 [THEN conjunct2, THEN conjunct2, THEN conjunct2, THEN conjunct1] 2
  have b: "fails Message msgMessageShort (validateMessage (loaded [] [] (js '' 123456789 '')))"
    by (rule mp)
  from t3 [THEN conjunct2, THEN conjunct2, THEN conjunct1] 3
  have c: "passes Message (validateMessage (loaded [] [] (js ''Hello there!'')))"
    by (rule mp)
  from a b c show ?thesis by (intro conjI)
qed

text \<open>
  The length before trimming does not decide: \<open>hi\<close> followed by eight spaces has length
  10 and is rejected as too short, and nine spaces have length 9 and are rejected as an
  empty field.
\<close>

theorem validateMessage_raw_length_counterexample:
  "length (js ''hi        '') = 10 \<and>
   \<not> fst (validateMessage (loaded [] [] (js ''hi        ''))) \<and>
   fails Message msgMessageShort (validateMessage (loaded [] [] (js ''hi        ''))) \<and>
   length (js ''         '') = 9 \<and>
   \<not> fails Message msgMessageShort (validateMessage (loaded [] [] (js ''         ''))) \<and>
   fails Message msgMessageRequired (validateMessage (loaded [] [] (js ''         '')))"
  by (simp add: validator_defs concrete_defs Let_def)

text \<open>
  Claim C7, in the form the code satisfies. Let \<open>t\<close> be the email value after \<open>trim\<close>.
  \<open>validateEmail\<close> fails with the empty-field message when \<open>t\<close> is empty, fails with
  the invalid-format message when \<open>t\<close> is not empty and does not have the shape
  \<open>local@domain.tld\<close>, and succeeds when \<open>t\<close> has that shape. \<open>a@b.c\<close> is valid,
  \<open>abc\<close> has an invalid format, and the empty string is an empty field.
\<close>

theorem validateEmail_outcome:
  "(length (trim (val (emailInput s))) = 0 \<longrightarrow> fails Email msgEmailRequired (validateEmail s)) \<and>
   (0 < length (trim (val (emailInput s))) \<and> \<not> spec_emailShape (trim (val (emailInput s))) \<longrightarrow>
      fails Email msgEmailInvalid (validateEmail s)) \<and>
   (spec_emailShape (trim (val (emailInput s))) \<longrightarrow> passes Email (validateEmail s)) \<and>
   (val (emailInput s) = js ''a@b.c'' \<longrightarrow> passes Email (validateEmail s)) \<and>
   (val (emailInput s) = js ''abc'' \<longrightarrow> fails Email msgEmailInvalid (validateEmail s)) \<and>
   (val (emailInput s) = [] \<longrightarrow> fails Email msgEmailRequired (validateEmail s))"
proof -
  have a: "length (trim (val (emailInput s))) = 0 \<longrightarrow> fails Email msgEmailRequired (validateEmail s)"
    by (simp add: validateEmail_cases fails_def showError_def)
  have b: "0 < length (trim (val (emailInput s))) \<and> \<not> spec_emailShape (trim (val (emailInput s))) \<longrightarrow>
      fails Email msgEmailInvalid (validateEmail s)"
    by (simp add: validateEmail_cases fails_def showError_def)
  have c: "spec_emailShape (trim (val (emailInput s))) \<longrightarrow> passes Email (validateEmail s)"
    using spec_emailShape_nonempty [of "trim (val (emailInput s))"]
    by (simp add: validateEmail_cases passes_def clearError_def)
  have ex1: "trim (js ''a@b.c'') = js ''a@b.c'' \<and> emailRegex_test (js ''a@b.c'')"
    by (simp add: regex_eval)
  have ex2: "trim (js ''abc'') = js ''abc'' \<and> \<not> emailRegex_test (js ''abc'') \<and> 0 < length (js ''abc'')"
    by (simp add: regex_eval)
  have ex3: "trim [] = []" by (simp add: trim_def)
  have d: "val (emailInput s) = js ''a@b.c'' \<longrightarrow> passes Email (validateEmail s)"
    using c ex1 by (simp add: emailRegex_test_iff)
  have e: "val (emailInput s) = js ''abc'' \<longrightarrow> fails Email msgEmailInvalid (validateEmail s)"
    using b ex2 by (simp add: emailRegex_test_iff)
  have f: "val (emailInput s) = [] \<longrightarrow> fails Email msgEmailRequired (validateEmail s)"
    using a ex3 by simp
  from a b c d e f show ?thesis by blast
qed

theorem validateEmail_outcome_witness:
  "fails Email msgEmailRequired (validateEmail (loaded [] (js ''  '') [])) \<and>
   fails Email msgEmailInvalid (validateEmail (loaded [] (js ''jo@x'') [])) \<and>
   passes Email (validateEmail (loaded [] (js '' jo@x.com '') []))"
proof -
  have v: "val (emailInput (loaded n e m)) = e" for n e m
    by (simp add: loaded_def freshInput_def)
  have 1: "length (trim (js ''  '')) = 0"
    by (simp add: regex_eval)
  have "0 < length (trim (js ''jo@x'')) \<and> \<not> emailRegex_test (trim (js ''jo@x''))"
    by (simp add: regex_eval)
  then have 2: "0 < length (trim (js ''jo@x'')) \<and> \<not> spec_emailShape (trim (js ''jo@x''))"
    by (simp add: emailRegex_test_iff)
  have "emailRegex_test (trim (js '' jo@x.com ''))"
    by (simp add: regex_eval)
  then have 3: "spec_emailShape (trim (js '' jo@x.com ''))"
    by (simp add: emailRegex_test_iff)
  from 1 2 3 validateEmail_outcome [of "loaded [] (js ''  '') []"]
    validateEmail_outcome [of "loaded [] (js ''jo@x'') []"]
    validateEmail_outcome [of "loaded [] (js '' jo@x.com '') []"]
  show ?thesis unfolding v by blast
qed

text \<open>
  The value before trimming does not decide: \<open>a@b.c\<close> after a leading space is not
  empty and does not have the shape, yet it is accepted; two spaces are not empty and do
  not have the shape, yet the failure is not the invalid-format one.
\<close>

theorem validateEmail_raw_pattern_counterexample:
  "js '' a@b.c'' \<noteq> [] \<and> \<not> spec_emailShape (js '' a@b.c'') \<and>
   passes Email (validateEmail (loaded [] (js '' a@b.c'') [])) \<and>
   js ''  '' \<noteq> [] \<and> \<not> spec_emailShape (js ''  '') \<and>
   \<not> fails Email msgEmailInvalid (validateEmail (loaded [] (js ''  '') []))"
proof -
  have 1: "js '' a@b.c'' \<noteq> [] \<and> \<not> emailRegex_test (js '' a@b.c'')"
    by (simp add: regex_eval)
  have 2: "passes Email (validateEmail (loaded [] (js '' a@b.c'') []))"
    by (simp add: validator_defs concrete_defs Let_def emailRegex_test_def emailRegex_def
        notSpaceAt_def)
  have 3: "js ''  '' \<noteq> [] \<and> \<not> emailRegex_test (js ''  '')"
    by (simp add: regex_eval)
  have 4: "\<not> fails Email msgEmailInvalid (validateEmail (loaded [] (js ''  '') []))"
    by (simp add: validator_defs concrete_defs Let_def)
  from 1 2 3 4 show ?thesis by (simp add: emailRegex_test_iff)
qed

section \<open>Properties of handleSubmit\<close>

lemma handleSubmit_begin_cases:
  "handleSubmit_begin e s =
     (let s3 = snd (validateMessage (snd (validateEmail (snd (validateName s)))))
      in if fst (validateName s) \<and> fst (validateEmail s) \<and> fst (validateMessage s)
         then (preventDefault e,
               s3\<lparr>submitDisabled := True, buttonTextDisplay := js ''none'',
                   buttonLoaderDisplay := js ''block''\<rparr>, True)
         else (preventDefault e, s3, False))"
proof -
  have e: "fst (validateEmail (snd (validateName s))) = fst (validateEmail s)"
    by (simp add: validateEmail_verdict validateName_frame)
  have m: "fst (validateMessage (snd (validateEmail (snd (validateName s))))) = fst (validateMessage s)"
    by (simp add: validateMessage_verdict validateName_frame validateEmail_frame)
  show ?thesis
    unfolding handleSubmit_begin_def Let_def
    by (simp add: split_beta e m)
qed

lemma buttonRestored_resume: "buttonRestored (handleSubmit_resume out t)"
  by (cases out) (simp_all add: buttonRestored_def resetButton_def reset_def)

lemma jo_valid:
  "fst (validateName (loaded (js ''Jo'') (js ''jo@x.com'') (js ''Hello there!''))) \<and>
   fst (validateEmail (loaded (js ''Jo'') (js ''jo@x.com'') (js ''Hello there!''))) \<and>
   fst (validateMessage (loaded (js ''Jo'') (js ''jo@x.com'') (js ''Hello there!'')))"
  by (simp add: validateName_verdict validateEmail_verdict validateMessage_verdict
      loaded_def freshInput_def regex_eval)

lemma validators_visible:
  "visible (errorOf f (snd (validateMessage (snd (validateEmail (snd (validateName s))))))) \<longleftrightarrow>
     \<not> fst (validate f s)"
proof (cases f)
  case Name
  have "visible (nameError (snd (validateName s))) \<longleftrightarrow> \<not> fst (validateName s)"
    using validate_visible [of Name s] by simp
  with Name show ?thesis by (simp add: validateMessage_frame validateEmail_frame)
next
  case Email
  have "visible (emailError (snd (validateEmail (snd (validateName s))))) \<longleftrightarrow>
        \<not> fst (validateEmail (snd (validateName s)))"
    using validate_visible [of Email "snd (validateName s)"] by simp
  with Email show ?thesis
    by (simp add: validateMessage_frame validateEmail_verdict validateName_frame)
next
  case Message
  have "visible (messageError (snd (validateMessage (snd (validateEmail (snd (validateName s))))))) \<longleftrightarrow>
        \<not> fst (validateMessage (snd (validateEmail (snd (validateName s)))))"
    using validate_visible [of Message "snd (validateEmail (snd (validateName s)))"] by simp
  with Message show ?thesis
    by (simp add: validateMessage_verdict validateName_frame validateEmail_frame)
qed

lemma validators_val:
  "val (inputOf f (snd (validateMessage (snd (validateEmail (snd (validateName s))))))) = val (inputOf f s)"
  by (cases f) (simp_all add: validateMessage_frame validateEmail_frame validateName_frame)

text \<open>
  Claim C10. For every submit event and every state of the form, valid or not, the
  handler has called \<open>preventDefault\<close> on the event: when it is suspended at \<open>await\<close> or
  has returned early, and when a whole run has finished.
\<close>

theorem handleSubmit_prevents_default:
  "defaultPrevented (fst (handleSubmit_begin e s)) \<and> defaultPrevented (fst (handleSubmit out e s))"
  by (simp add: handleSubmit_def handleSubmit_begin_cases Let_def preventDefault_def)

theorem handleSubmit_prevents_default_witness:
  "defaultPrevented (fst (handleSubmit Resolved \<lparr>defaultPrevented = False\<rparr> (loaded [] [] []))) \<and>
   defaultPrevented (fst (handleSubmit Rejected \<lparr>defaultPrevented = False\<rparr>
      (loaded (js ''Jo'') (js ''jo@x.com'') (js ''Hello there!''))))"
  using handleSubmit_prevents_default [of "\<lparr>defaultPrevented = False\<rparr>" "loaded [] [] []" Resolved]
    handleSubmit_prevents_default [of "\<lparr>defaultPrevented = False\<rparr>"
      "loaded (js ''Jo'') (js ''jo@x.com'') (js ''Hello there!'')" Rejected]
  by blast

text \<open>
  Claim C4. When the three validators accept the form, the handler disables the submit
  control and is suspended at \<open>await\<close>; however the promise settles, resolved or
  rejected, and whatever events the form has seen during the wait, the handler ends with
  the submit control enabled, its label shown and its loader hidden.
\<close>

theorem handleSubmit_cleanup:
  assumes "fst (validateName s)" "fst (validateEmail s)" "fst (validateMessage s)"
  shows "snd (snd (handleSubmit_begin e s)) \<and>
         submitDisabled (fst (snd (handleSubmit_begin e s))) \<and>
         buttonRestored (snd (handleSubmit out e s)) \<and>
         buttonRestored (handleSubmit_resume out (run (fst (snd (handleSubmit_begin e s))) evs))"
  using assms
  by (simp add: handleSubmit_def handleSubmit_begin_cases Let_def buttonRestored_resume)

theorem handleSubmit_cleanup_witness:
  "buttonRestored (snd (handleSubmit Resolved \<lparr>defaultPrevented = False\<rparr>
       (loaded (js ''Jo'') (js ''jo@x.com'') (js ''Hello there!'')))) \<and>
   buttonRestored (snd (handleSubmit Rejected \<lparr>defaultPrevented = False\<rparr>
       (loaded (js ''Jo'') (js ''jo@x.com'') (js ''Hello there!''))))"
  using jo_valid
    handleSubmit_cleanup [of "loaded (js ''Jo'') (js ''jo@x.com'') (js ''Hello there!'')"
      "\<lparr>defaultPrevented = False\<rparr>" Resolved "[]"]
    handleSubmit_cleanup [of "loaded (js ''Jo'') (js ''jo@x.com'') (js ''Hello there!'')"
      "\<lparr>defaultPrevented = False\<rparr>" Rejected "[]"]
  by blast

text \<open>
  Claim C5. When at least one validator rejects the form, the handler has still run all
  three of them: the state it leaves is the one after \<open>validateName\<close>, \<open>validateEmail\<close>
  and \<open>validateMessage\<close> in this order, and the error of every field is visible exactly
  when that field is invalid. The handler returns without waiting: the default action is
  suppressed, the values of the fields, the submit control, its label and loader, the
  success element, the timers and the alerts are as before, and nothing is awaited.
\<close>

theorem handleSubmit_aborts_when_invalid:
  assumes "\<not> fst (validateName s) \<or> \<not> fst (validateEmail s) \<or> \<not> fst (validateMessage s)"
  shows "handleSubmit_begin e s =
           (preventDefault e, snd (validateMessage (snd (validateEmail (snd (validateName s))))), False) \<and>
         handleSubmit out e s = (fst (handleSubmit_begin e s), fst (snd (handleSubmit_begin e s))) \<and>
         defaultPrevented (fst (handleSubmit out e s)) \<and>
         (\<forall>f. val (inputOf f (snd (handleSubmit out e s))) = val (inputOf f s)) \<and>
         (\<forall>f. visible (errorOf f (snd (handleSubmit out e s))) \<longleftrightarrow> \<not> fst (validate f s)) \<and>
         submitDisabled (snd (handleSubmit out e s)) = submitDisabled s \<and>
         buttonTextDisplay (snd (handleSubmit out e s)) = buttonTextDisplay s \<and>
         buttonLoaderDisplay (snd (handleSubmit out e s)) = buttonLoaderDisplay s \<and>
         formSuccess (snd (handleSubmit out e s)) = formSuccess s \<and>
         hideTimers (snd (handleSubmit out e s)) = hideTimers s \<and>
         alerts (snd (handleSubmit out e s)) = alerts s \<and>
         step s Submit = snd (handleSubmit out e s) \<and>
         awaiting (step s Submit) = awaiting s"
proof -
  from assms have b: "handleSubmit_begin e s =
      (preventDefault e, snd (validateMessage (snd (validateEmail (snd (validateName s))))), False)"
    by (auto simp: handleSubmit_begin_cases Let_def)
  from assms have b0: "handleSubmit_begin \<lparr>defaultPrevented = False\<rparr> s =
      (preventDefault \<lparr>defaultPrevented = False\<rparr>,
       snd (validateMessage (snd (validateEmail (snd (validateName s))))), False)"
    by (auto simp: handleSubmit_begin_cases Let_def)
  have h: "handleSubmit out e s =
      (preventDefault e, snd (validateMessage (snd (validateEmail (snd (validateName s))))))"
    by (simp add: handleSubmit_def b)
  show ?thesis
    unfolding h b
    by (simp add: b0 preventDefault_def validators_visible validators_val
        validateMessage_frame validateEmail_frame validateName_frame)
qed

theorem handleSubmit_aborts_when_invalid_witness:
  "defaultPrevented (fst (handleSubmit Resolved \<lparr>defaultPrevented = False\<rparr> (loaded (js ''Jo'') (js ''jo'') []))) \<and>
   \<not> submitDisabled (snd (handleSubmit Resolved \<lparr>defaultPrevented = False\<rparr> (loaded (js ''Jo'') (js ''jo'') []))) \<and>
   visible (emailError (snd (handleSubmit Resolved \<lparr>defaultPrevented = False\<rparr> (loaded (js ''Jo'') (js ''jo'') [])))) \<and>
   val (emailInput (snd (handleSubmit Resolved \<lparr>defaultPrevented = False\<rparr> (loaded (js ''Jo'') (js ''jo'') [])))) = js ''jo''"
proof -
  have 1: "\<not> fst (validateEmail (loaded (js ''Jo'') (js ''jo'') []))"
    by (simp add: validateEmail_verdict loaded_def freshInput_def regex_eval)
  have 2: "\<not> submitDisabled (loaded (js ''Jo'') (js ''jo'') [])"
    by (simp add: loaded_def)
  have 3: "val (emailInput (loaded (js ''Jo'') (js ''jo'') [])) = js ''jo''"
    by (simp add: loaded_def freshInput_def)
  from 1 have "\<not> fst (validateName (loaded (js ''Jo'') (js ''jo'') [])) \<or>
      \<not> fst (validateEmail (loaded (js ''Jo'') (js ''jo'') [])) \<or>
      \<not> fst (validateMessage (loaded (js ''Jo'') (js ''jo'') []))" by blast
  note t = handleSubmit_aborts_when_invalid [OF this, of "\<lparr>defaultPrevented = False\<rparr>" Resolved]
  from t have a: "defaultPrevented (fst (handleSubmit Resolved \<lparr>defaultPrevented = False\<rparr>
      (loaded (js ''Jo'') (js ''jo'') [])))" by blast
  from t 2 have b: "\<not> submitDisabled (snd (handleSubmit Resolved \<lparr>defaultPrevented = False\<rparr>
      (loaded (js ''Jo'') (js ''jo'') [])))" by blast
  from t have "visible (errorOf Email (snd (handleSubmit Resolved \<lparr>defaultPrevented = False\<rparr>
      (loaded (js ''Jo'') (js ''jo'') [])))) \<longleftrightarrow> \<not> fst (validate Email (loaded (js ''Jo'') (js ''jo'') []))"
    by blast
  with 1 have c: "visible (emailError (snd (handleSubmit Resolved \<lparr>defaultPrevented = False\<rparr>
      (loaded (js ''Jo'') (js ''jo'') []))))" by simp
  from t have "val (inputOf Email (snd (handleSubmit Resolved \<lparr>defaultPrevented = False\<rparr>
      (loaded (js ''Jo'') (js ''jo'') [])))) = val (inputOf Email (loaded (js ''Jo'') (js ''jo'') []))"
    by blast
  with 3 have d: "val (emailInput (snd (handleSubmit Resolved \<lparr>defaultPrevented = False\<rparr>
      (loaded (js ''Jo'') (js ''jo'') [])))) = js ''jo''" by simp
  from a b c d show ?thesis by blast
qed

section \<open>The error display through sequences of events\<close>

lemma validate_shown: "shownError f (snd (validate f s)) \<noteq> [] \<longleftrightarrow> \<not> fst (validate f s)"
  by (cases f) (simp_all add: shownError_def validateName_def validateEmail_def validateMessage_def
      showError_def clearError_def Let_def msgs_nonempty)

lemma validate_other:
  "g \<noteq> f \<Longrightarrow> errorOf f (snd (validate g s)) = errorOf f s"
  "g \<noteq> f \<Longrightarrow> inputOf f (snd (validate g s)) = inputOf f s"
  by (cases g; cases f; simp add: validateName_frame validateEmail_frame validateMessage_frame)+

lemma validate_val: "val (inputOf f (snd (validate g s))) = val (inputOf f s)"
  by (cases g; cases f; simp add: validateName_frame validateEmail_frame validateMessage_frame)

lemma validate_text_ok:
  "(visible (errorOf f s) \<longrightarrow> textContent (errorOf f s) \<noteq> []) \<Longrightarrow>
   visible (errorOf f (snd (validate g s))) \<longrightarrow> textContent (errorOf f (snd (validate g s))) \<noteq> []"
proof (cases "g = f")
  case True
  assume "visible (errorOf f s) \<longrightarrow> textContent (errorOf f s) \<noteq> []"
  from True validate_shown [of f s] validate_visible [of f s] show ?thesis
    by (auto simp: shownError_def)
next
  case False
  assume "visible (errorOf f s) \<longrightarrow> textContent (errorOf f s) \<noteq> []"
  with False show ?thesis by (simp add: validate_other)
qed

lemma onInput_setVal_same:
  "errorOf f (onInput f (setVal f v s)) = (errorOf f s)\<lparr>visible := False\<rparr>"
  "inputOf f (onInput f (setVal f v s)) = (inputOf f s)\<lparr>val := v, hasError := False\<rparr>"
  by (cases f; simp add: onInput_def setVal_def)+

lemma onInput_setVal_other:
  "g \<noteq> f \<Longrightarrow> errorOf f (onInput g (setVal g v s)) = errorOf f s"
  "g \<noteq> f \<Longrightarrow> inputOf f (onInput g (setVal g v s)) = inputOf f s"
  by (cases g; cases f; simp add: onInput_def setVal_def)+

lemma resume_errorOf: "errorOf f (handleSubmit_resume out s) = errorOf f s"
  by (cases out; cases f; simp add: resetButton_def reset_def)

lemma step_Submit_errorOf:
  "errorOf f (step s Submit) = errorOf f (snd (validateMessage (snd (validateEmail (snd (validateName s))))))"
  by (cases f; simp add: handleSubmit_begin_cases Let_def)

lemma step_Submit_val: "val (inputOf f (step s Submit)) = val (inputOf f s)"
  by (cases f; simp add: handleSubmit_begin_cases Let_def
      validateName_frame validateEmail_frame validateMessage_frame)

lemma validators_errorOf:
  "errorOf f (snd (validateMessage (snd (validateEmail (snd (validateName s)))))) =
   errorOf f (snd (validate f s))"
proof (cases f)
  case Name
  then show ?thesis by (simp add: validateMessage_frame validateEmail_frame)
next
  case Email
  have "emailError (snd (validateEmail (snd (validateName s)))) = emailError (snd (validateEmail s))"
    by (simp add: validateEmail_def showError_def clearError_def Let_def validateName_frame)
  with Email show ?thesis by (simp add: validateMessage_frame)
next
  case Message
  have "messageError (snd (validateMessage (snd (validateEmail (snd (validateName s)))))) =
        messageError (snd (validateMessage s))"
    by (simp add: validateMessage_def showError_def clearError_def Let_def
        validateName_frame validateEmail_frame)
  with Message show ?thesis by simp
qed

text \<open>Only a blur of the field or a submit can make its error visible.\<close>

lemma step_visible:
  "visible (errorOf f (step s ev)) \<Longrightarrow> visible (errorOf f s) \<or> ev = Blur f \<or> ev = Submit"
proof (cases ev)
  case (Blur g)
  assume "visible (errorOf f (step s ev))"
  with Blur show ?thesis by (cases "g = f") (simp_all add: validate_other)
next
  case (Input g v)
  assume "visible (errorOf f (step s ev))"
  with Input show ?thesis
    by (cases "g = f") (simp_all add: onInput_setVal_same onInput_setVal_other)
next
  case Submit
  then show ?thesis by simp
next
  case (Settled out)
  assume "visible (errorOf f (step s ev))"
  with Settled show ?thesis
    by (cases "awaiting s = 0"; cases f; cases out; simp add: resetButton_def reset_def)
next
  case HideTimeout
  assume "visible (errorOf f (step s ev))"
  with HideTimeout show ?thesis by (cases "hideTimers s = 0"; cases f; simp)
qed

lemma step_text_ok:
  assumes "visible (errorOf f s) \<longrightarrow> textContent (errorOf f s) \<noteq> []"
  shows "visible (errorOf f (step s ev)) \<longrightarrow> textContent (errorOf f (step s ev)) \<noteq> []"
proof (cases ev)
  case (Blur g)
  with validate_text_ok [OF assms, of g] show ?thesis by simp
next
  case (Input g v)
  with assms show ?thesis
    by (cases "g = f") (simp_all add: onInput_setVal_same onInput_setVal_other)
next
  case Submit
  have "visible (errorOf f (snd (validate f s))) \<longrightarrow> textContent (errorOf f (snd (validate f s))) \<noteq> []"
    by (rule validate_text_ok [OF assms])
  with Submit show ?thesis by (simp only: step_Submit_errorOf validators_errorOf)
next
  case (Settled out)
  with assms show ?thesis by (cases "awaiting s = 0"; cases f; cases out; simp add: resetButton_def reset_def)
next
  case HideTimeout
  with assms show ?thesis by (cases "hideTimers s = 0"; cases f; simp)
qed

lemma run_snoc: "run s (evs @ [ev]) = step (run s evs) ev"
  by (simp add: run_def)

lemma run_visible_touched:
  "\<not> visible (errorOf f s0) \<Longrightarrow> visible (errorOf f (run s0 evs)) \<Longrightarrow> touched f evs"
proof (induction evs rule: rev_induct)
  case Nil
  then show ?case by (simp add: run_def)
next
  case (snoc ev evs)
  from snoc.prems(2) have "visible (errorOf f (run s0 evs)) \<or> ev = Blur f \<or> ev = Submit"
    unfolding run_snoc by (rule step_visible)
  with snoc.IH snoc.prems(1) show ?case by (auto simp: touched_def)
qed

lemma run_text_ok:
  "\<not> visible (errorOf f s0) \<Longrightarrow>
   visible (errorOf f (run s0 evs)) \<longrightarrow> textContent (errorOf f (run s0 evs)) \<noteq> []"
proof (induction evs rule: rev_induct)
  case Nil
  then show ?case by (simp add: run_def)
next
  case (snoc ev evs)
  then show ?case unfolding run_snoc by (intro step_text_ok) simp
qed

lemmas form_eval = run_def onInput_def setVal_def validateName_def validateEmail_def
  validateMessage_def showError_def clearError_def Let_def shownError_def touched_def
  loaded_def freshInput_def freshError_def js_def trim_def isWhiteSpace_def

text \<open>
  Claim C3, in the form the code satisfies. Start from a form whose error for field \<open>f\<close>
  is not visible and let any sequence of blur, input, submit, settle and timer events
  happen. The error message on display for \<open>f\<close> is non-empty exactly when the error
  element is visible, and then \<open>f\<close> has been blurred or submitted at least once. Right
  after a blur of \<open>f\<close> or a submit, the message on display is non-empty exactly when
  \<open>f\<close> is invalid. Right after typing in \<open>f\<close>, no message is on display and the class
  \<open>error\<close> is gone, whatever the new value is; the text of the error element is left as
  it was.
\<close>

theorem error_display_after_events:
  assumes "\<not> visible (errorOf f s0)"
  shows "(shownError f (run s0 evs) \<noteq> [] \<longleftrightarrow> visible (errorOf f (run s0 evs))) \<and>
         (shownError f (run s0 evs) \<noteq> [] \<longrightarrow> touched f evs) \<and>
         (shownError f (run s0 (evs @ [Blur f])) \<noteq> [] \<longleftrightarrow>
            \<not> fst (validate f (run s0 (evs @ [Blur f])))) \<and>
         (shownError f (run s0 (evs @ [Submit])) \<noteq> [] \<longleftrightarrow>
            \<not> fst (validate f (run s0 (evs @ [Submit])))) \<and>
         shownError f (run s0 (evs @ [Input f v])) = [] \<and>
         \<not> hasError (inputOf f (run s0 (evs @ [Input f v]))) \<and>
         textContent (errorOf f (run s0 (evs @ [Input f v]))) = textContent (errorOf f (run s0 evs)) \<and>
         val (inputOf f (run s0 (evs @ [Input f v]))) = v"
proof -
  let ?s = "run s0 evs"
  have a: "shownError f ?s \<noteq> [] \<longleftrightarrow> visible (errorOf f ?s)"
    using run_text_ok [OF assms, of evs] by (auto simp: shownError_def)
  have b: "shownError f ?s \<noteq> [] \<longrightarrow> touched f evs"
    using a run_visible_touched [OF assms, of evs] by blast
  have "fst (validate f (step ?s (Blur f))) = fst (validate f ?s)"
    by (rule validate_verdict_cong) (simp add: validate_val)
  then have c: "shownError f (run s0 (evs @ [Blur f])) \<noteq> [] \<longleftrightarrow>
      \<not> fst (validate f (run s0 (evs @ [Blur f])))"
    unfolding run_snoc using validate_shown [of f ?s] by simp
  have "fst (validate f (step ?s Submit)) = fst (validate f ?s)"
    by (rule validate_verdict_cong) (rule step_Submit_val)
  moreover have "shownError f (step ?s Submit) = shownError f (snd (validate f ?s))"
    by (simp only: shownError_def step_Submit_errorOf validators_errorOf)
  ultimately have d: "shownError f (run s0 (evs @ [Submit])) \<noteq> [] \<longleftrightarrow>
      \<not> fst (validate f (run s0 (evs @ [Submit])))"
    unfolding run_snoc using validate_shown [of f ?s] by simp
  have e: "shownError f (run s0 (evs @ [Input f v])) = [] \<and>
         \<not> hasError (inputOf f (run s0 (evs @ [Input f v]))) \<and>
         textContent (errorOf f (run s0 (evs @ [Input f v]))) = textContent (errorOf f (run s0 evs)) \<and>
         val (inputOf f (run s0 (evs @ [Input f v]))) = v"
    unfolding run_snoc by (simp add: shownError_def onInput_setVal_same)
  from a b c d e show ?thesis by blast
qed

theorem error_display_after_events_witness:
  "shownError Name (run (loaded [] [] []) [Blur Name]) \<noteq> [] \<and>
   touched Name [Blur Name] \<and>
   shownError Name (run (loaded [] [] []) [Blur Name, Input Name (js ''A'')]) = []"
proof -
  have 0: "\<not> visible (errorOf Name (loaded [] [] []))"
    by (simp add: loaded_def freshError_def)
  have 1: "\<not> fst (validate Name (run (loaded [] [] []) ([] @ [Blur Name])))"
    by (simp add: form_eval)
  from error_display_after_events [OF 0, of "[]"] 1
  have 2: "shownError Name (run (loaded [] [] []) [Blur Name]) \<noteq> []" by simp
  from error_display_after_events [OF 0, of "[Blur Name]" "js ''A''"] 2
  show ?thesis by simp
qed

text \<open>
  After a blur of the empty name field and then typing \<open>A\<close>, the field is invalid and
  has been blurred, and no message is on display. After a blur, typing \<open>Al\<close> and a second
  blur, the field is valid and the text of its error element is still not empty.
\<close>

theorem error_message_iff_counterexample:
  "touched Name [Blur Name, Input Name (js ''A'')] \<and>
   \<not> fst (validate Name (run (loaded [] [] []) [Blur Name, Input Name (js ''A'')])) \<and>
   shownError Name (run (loaded [] [] []) [Blur Name, Input Name (js ''A'')]) = [] \<and>
   fst (validate Name (run (loaded [] [] []) [Blur Name, Input Name (js ''Al''), Blur Name])) \<and>
   textContent (errorOf Name (run (loaded [] [] []) [Blur Name, Input Name (js ''Al''), Blur Name])) \<noteq> []"
  by (simp add: form_eval msgs_nonempty)

section \<open>Properties of the active link\<close>

text \<open>A loop that overwrites a variable at every match ends with the last match.\<close>

lemma fold_last_match:
  "fold (\<lambda>x cur. if P x then g x else cur) xs c =
     (case filter P xs of [] \<Rightarrow> c | y # ys \<Rightarrow> g (last (y # ys)))"
proof (induction xs arbitrary: c)
  case Nil
  then show ?case by simp
next
  case (Cons x xs)
  show ?case
  proof (cases "P x")
    case True
    with Cons.IH [of "g x"] show ?thesis by (simp split: list.splits)
  next
    case False
    with Cons.IH [of c] show ?thesis by simp
  qed
qed

lemma currentSection_last:
  "currentSection S secs =
     (case filter (\<lambda>sec. of_int (offsetTop sec) - 200 \<le> S) secs of
        [] \<Rightarrow> [] | y # ys \<Rightarrow> sid (last (y # ys)))"
  unfolding currentSection_def by (rule fold_last_match)

lemma markLink_active: "active (markLink current l) \<longleftrightarrow> href l = Some (0x23 # current)"
  by (simp add: markLink_def Let_def)

lemma markLink_href: "href (markLink current l) = href l"
  by (simp add: markLink_def Let_def)

text \<open>
  Claim C1, in the form the code satisfies. For every scroll offset and every list of
  sections in document order, the id computed by the scroll handler is the id of the last
  section whose top offset minus 200 is at most the scroll offset, and the empty string
  when there is none; among sections with equal thresholds the last one wins. The handler
  marks a link active exactly when its \<open>href\<close> is \<open>#\<close> followed by that id; so when no
  threshold is crossed the id is empty and the active links are those whose \<open>href\<close> is
  exactly \<open>#\<close>.
\<close>

theorem active_section_is_last_crossed:
  "currentSection S secs =
     (case filter (\<lambda>sec. of_int (offsetTop sec) - 200 \<le> S) secs of
        [] \<Rightarrow> [] | y # ys \<Rightarrow> sid (last (y # ys))) \<and>
   map href (handleScroll S secs navLinks) = map href navLinks \<and>
   map active (handleScroll S secs navLinks) =
     map (\<lambda>l. href l = Some (0x23 # currentSection S secs)) navLinks \<and>
   (filter (\<lambda>sec. of_int (offsetTop sec) - 200 \<le> S) secs = [] \<longrightarrow>
      currentSection S secs = [] \<and>
      (\<forall>l \<in> set (handleScroll S secs navLinks). active l \<longleftrightarrow> href l = Some [0x23]))"
proof -
  have a: "filter (\<lambda>sec. of_int (offsetTop sec) - 200 \<le> S) secs = [] \<longrightarrow> currentSection S secs = []"
    by (simp add: currentSection_last)
  have b: "\<forall>l \<in> set (handleScroll S secs navLinks).
      active l \<longleftrightarrow> href l = Some (0x23 # currentSection S secs)"
    by (auto simp: handleScroll_def markLink_active markLink_href)
  have c: "map href (handleScroll S secs navLinks) = map href navLinks"
    by (simp add: handleScroll_def markLink_href comp_def)
  have d: "map active (handleScroll S secs navLinks) =
     map (\<lambda>l. href l = Some (0x23 # currentSection S secs)) navLinks"
    by (simp add: handleScroll_def markLink_active comp_def)
  from a b c d currentSection_last [of S secs] show ?thesis by simp
qed

theorem active_section_is_last_crossed_witness:
  "currentSection 500 [\<lparr>sid = js ''home'', offsetTop = 0, clientHeight = 600\<rparr>,
                       \<lparr>sid = js ''about'', offsetTop = 700, clientHeight = 0\<rparr>,
                       \<lparr>sid = js ''skills'', offsetTop = 700, clientHeight = 400\<rparr>,
                       \<lparr>sid = js ''contact'', offsetTop = 1100, clientHeight = 400\<rparr>] = js ''skills'' \<and>
   currentSection (-250) [\<lparr>sid = js ''home'', offsetTop = 0, clientHeight = 600\<rparr>] = [] \<and>
   \<not> active (hd (handleScroll (-250) [\<lparr>sid = js ''home'', offsetTop = 0, clientHeight = 600\<rparr>]
                 [\<lparr>href = Some (js ''#home''), active = True\<rparr>]))"
proof -
  let ?links = "handleScroll (-250) [\<lparr>sid = js ''home'', offsetTop = 0, clientHeight = 600\<rparr>]
                 [\<lparr>href = Some (js ''#home''), active = True\<rparr>]"
  have 1: "filter (\<lambda>sec. of_int (offsetTop sec) - 200 \<le> (-250::real))
             [\<lparr>sid = js ''home'', offsetTop = 0, clientHeight = 600\<rparr>] = []"
    by simp
  have 2: "(case filter (\<lambda>sec. of_int (offsetTop sec) - 200 \<le> (500::real))
                [\<lparr>sid = js ''home'', offsetTop = 0, clientHeight = 600\<rparr>,
                 \<lparr>sid = js ''about'', offsetTop = 700, clientHeight = 0\<rparr>,
                 \<lparr>sid = js ''skills'', offsetTop = 700, clientHeight = 400\<rparr>,
                 \<lparr>sid = js ''contact'', offsetTop = 1100, clientHeight = 400\<rparr>] of
              [] \<Rightarrow> [] | y # ys \<Rightarrow> sid (last (y # ys))) = js ''skills''"
    by simp
  have 3: "hd ?links \<in> set ?links \<and> href (hd ?links) \<noteq> Some [0x23]"
    by (simp add: handleScroll_def markLink_def Let_def js_def)
  from 2 active_section_is_last_crossed [of 500 "[\<lparr>sid = js ''home'', offsetTop = 0, clientHeight = 600\<rparr>,
                       \<lparr>sid = js ''about'', offsetTop = 700, clientHeight = 0\<rparr>,
                       \<lparr>sid = js ''skills'', offsetTop = 700, clientHeight = 400\<rparr>,
                       \<lparr>sid = js ''contact'', offsetTop = 1100, clientHeight = 400\<rparr>]" "[]"]
  have a: "currentSection 500 [\<lparr>sid = js ''home'', offsetTop = 0, clientHeight = 600\<rparr>,
                       \<lparr>sid = js ''about'', offsetTop = 700, clientHeight = 0\<rparr>,
                       \<lparr>sid = js ''skills'', offsetTop = 700, clientHeight = 400\<rparr>,
                       \<lparr>sid = js ''contact'', offsetTop = 1100, clientHeight = 400\<rparr>] = js ''skills''"
    by simp
  from 1 active_section_is_last_crossed [of "-250" "[\<lparr>sid = js ''home'', offsetTop = 0, clientHeight = 600\<rparr>]"
       "[\<lparr>href = Some (js ''#home''), active = True\<rparr>]"]
  have b: "currentSection (-250) [\<lparr>sid = js ''home'', offsetTop = 0, clientHeight = 600\<rparr>] = [] \<and>
      (\<forall>l \<in> set ?links. active l \<longleftrightarrow> href l = Some [0x23])"
    by blast
  with 3 have c: "\<not> active (hd ?links)" by blast
  from a b c show ?thesis by blast
qed

text \<open>
  At scroll offset 0 the threshold of a section at 600 is not crossed and the id is empty,
  yet a link whose \<open>href\<close> is \<open>#\<close> is marked active.
\<close>

theorem active_link_hash_counterexample:
  "\<not> (0::real) \<ge> of_int (offsetTop \<lparr>sid = js ''about'', offsetTop = 600, clientHeight = 500\<rparr>) - 200 \<and>
   currentSection 0 [\<lparr>sid = js ''about'', offsetTop = 600, clientHeight = 500\<rparr>] = [] \<and>
   map active (handleScroll 0 [\<lparr>sid = js ''about'', offsetTop = 600, clientHeight = 500\<rparr>]
      [\<lparr>href = Some (js ''#''), active = False\<rparr>, \<lparr>href = Some (js ''#about''), active = False\<rparr>])
     = [True, False]"
  by (simp add: currentSection_def handleScroll_def markLink_def Let_def js_def)

section \<open>Properties of the mobile menu\<close>

lemma true_not_false: "js ''false'' \<noteq> js ''true''"
  by (simp add: js_def)

lemma toggleClick_mirrored: "mirrored s \<Longrightarrow> mirrored (toggleClick s)"
  using true_not_false by (auto simp: mirrored_def toggleClick_def toString_def Let_def)

lemma linkClick_mirrored: "mirrored (linkClick s)"
  using true_not_false by (simp add: mirrored_def linkClick_def)

lemma documentClick_mirrored: "mirrored s \<Longrightarrow> mirrored (documentClick inside s)"
  using true_not_false by (simp add: mirrored_def documentClick_def)

lemma keydown_mirrored: "mirrored s \<Longrightarrow> mirrored (keydown key s)"
  using true_not_false by (simp add: mirrored_def keydown_def)

lemma hit_mirrored: "mirrored s \<Longrightarrow> mirrored (hit l s)"
  by (cases l) (simp_all add: toggleClick_mirrored linkClick_mirrored)

lemma fold_hit_mirrored: "mirrored s \<Longrightarrow> mirrored (fold hit path s)"
  by (induction path arbitrary: s) (simp_all add: hit_mirrored)

lemma navStep_mirrored: "mirrored s \<Longrightarrow> mirrored (navStep s ev)"
  by (cases ev) (simp_all add: fold_hit_mirrored documentClick_mirrored keydown_mirrored)

lemma runNav_mirrored: "mirrored s \<Longrightarrow> mirrored (runNav s evs)"
  unfolding runNav_def by (induction evs arbitrary: s) (simp_all add: navStep_mirrored)

lemma outside_click_mirrored: "mirrored (navStep s (Click path False))"
  using true_not_false by (simp add: mirrored_def documentClick_def)

lemma link_click_mirrored: "mirrored (navStep s (Click (path @ [NavLinkElem]) inside))"
  by (simp add: documentClick_mirrored linkClick_mirrored)

text \<open>
  Claim C9. Start from a page where \<open>aria-expanded\<close> is \<open>true\<close> exactly when the menu
  carries the class \<open>active\<close>. After every sequence of clicks (on the toggle button, on
  nav links, inside or outside the nav container) and key presses, and after every
  prefix of it, \<open>aria-expanded\<close> is \<open>true\<close> exactly when the menu is open. From any
  page at all, the two agree from the first click outside the nav container or on a nav
  link onwards.
\<close>

theorem aria_expanded_mirrors_menu:
  assumes "mirrored s0"
  shows "(ariaExpanded (runNav s0 evs) = Some (js ''true'')) = menuActive (runNav s0 evs) \<and>
         (\<forall>n. mirrored (runNav s0 (take n evs))) \<and>
         mirrored (runNav s (Click path False # evs)) \<and>
         mirrored (runNav s (Click (path @ [NavLinkElem]) inside # evs))"
proof -
  have "mirrored (runNav (navStep s (Click path False)) evs)"
    using outside_click_mirrored by (rule runNav_mirrored)
  moreover have "mirrored (runNav (navStep s (Click (path @ [NavLinkElem]) inside)) evs)"
    using link_click_mirrored by (rule runNav_mirrored)
  ultimately show ?thesis
    using assms runNav_mirrored [of s0] by (simp add: mirrored_def runNav_def)
qed

theorem aria_expanded_mirrors_menu_witness:
  "menuActive (runNav \<lparr>ariaExpanded = None, menuActive = False\<rparr> [Click [ToggleButton] True]) \<and>
   ariaExpanded (runNav \<lparr>ariaExpanded = None, menuActive = False\<rparr> [Click [ToggleButton] True])
     = Some (js ''true'') \<and>
   \<not> menuActive (runNav \<lparr>ariaExpanded = None, menuActive = False\<rparr>
        [Click [ToggleButton] True, KeyDown (js ''Escape'')]) \<and>
   ariaExpanded (runNav \<lparr>ariaExpanded = None, menuActive = False\<rparr>
        [Click [ToggleButton] True, KeyDown (js ''Escape'')]) \<noteq> Some (js ''true'')"
proof -
  have 0: "mirrored \<lparr>ariaExpanded = None, menuActive = False\<rparr>"
    by (simp add: mirrored_def)
  have 1: "menuActive (runNav \<lparr>ariaExpanded = None, menuActive = False\<rparr> [Click [ToggleButton] True])"
    by (simp add: runNav_def toggleClick_def documentClick_def Let_def)
  have 2: "\<not> menuActive (runNav \<lparr>ariaExpanded = None, menuActive = False\<rparr>
        [Click [ToggleButton] True, KeyDown (js ''Escape'')])"
    by (simp add: runNav_def toggleClick_def documentClick_def keydown_def Let_def)
  note t1 = aria_expanded_mirrors_menu [OF 0, of "[Click [ToggleButton] True]", THEN conjunct1]
  note t2 = aria_expanded_mirrors_menu [OF 0, of "[Click [ToggleButton] True, KeyDown (js ''Escape'')]",
      THEN conjunct1]
  from 1 t1 have a: "ariaExpanded (runNav \<lparr>ariaExpanded = None, menuActive = False\<rparr>
      [Click [ToggleButton] True]) = Some (js ''true'')" by simp
  from 2 t2 have b: "ariaExpanded (runNav \<lparr>ariaExpanded = None, menuActive = False\<rparr>
        [Click [ToggleButton] True, KeyDown (js ''Escape'')]) \<noteq> Some (js ''true'')" by simp
  from 1 2 a b show ?thesis by (intro conjI)
qed

section \<open>Properties of the scroll animations\<close>
































end
